theory Spec2Isabelle
  imports Complex_Main
begin

section \<open>JavaScript numbers\<close>

text \<open>
  Every \<^verbatim>\<open>number\<close> of the TypeScript source is an IEEE double. The model keeps the
  three kinds of value that the code can tell apart: \<open>NaN\<close>, the two infinities and the
  finite values. Finite values are exact reals: rounding and the sign of zero are not
  modelled. The fields of an opportunity and of a trade result and the clock are finite
  and have type \<open>real\<close>; a value computed through a division whose divisor may be zero
  has type \<open>jsnum\<close>. The flash-loan engine multiplies a configured amount by quoted
  prices, and both can be \<open>NaN\<close> or infinite: all its numbers have type \<open>jsnum\<close>, and its
  arithmetic overflows (section FlashLoanEngine).
\<close>

datatype jsnum = NaN | NInf | Fin real | PInf

fun jneg :: "jsnum \<Rightarrow> jsnum" where
  "jneg NaN = NaN"
| "jneg NInf = PInf"
| "jneg PInf = NInf"
| "jneg (Fin a) = Fin (- a)"

fun jadd :: "jsnum \<Rightarrow> jsnum \<Rightarrow> jsnum" where
  "jadd NaN _ = NaN"
| "jadd _ NaN = NaN"
| "jadd PInf NInf = NaN"
| "jadd NInf PInf = NaN"
| "jadd PInf _ = PInf"
| "jadd _ PInf = PInf"
| "jadd NInf _ = NInf"
| "jadd _ NInf = NInf"
| "jadd (Fin a) (Fin b) = Fin (a + b)"

definition jsub :: "jsnum \<Rightarrow> jsnum \<Rightarrow> jsnum" where
  "jsub a b = jadd a (jneg b)"

fun jmul :: "jsnum \<Rightarrow> jsnum \<Rightarrow> jsnum" where
  "jmul NaN _ = NaN"
| "jmul _ NaN = NaN"
| "jmul (Fin a) (Fin b) = Fin (a * b)"
| "jmul (Fin a) PInf = (if a = 0 then NaN else if 0 < a then PInf else NInf)"
| "jmul (Fin a) NInf = (if a = 0 then NaN else if 0 < a then NInf else PInf)"
| "jmul PInf (Fin b) = (if b = 0 then NaN else if 0 < b then PInf else NInf)"
| "jmul NInf (Fin b) = (if b = 0 then NaN else if 0 < b then NInf else PInf)"
| "jmul PInf PInf = PInf"
| "jmul PInf NInf = NInf"
| "jmul NInf PInf = NInf"
| "jmul NInf NInf = PInf"

text \<open>Division never raises: \<open>0 / 0\<close> is \<open>NaN\<close> and \<open>x / 0\<close> is an infinity.\<close>

fun jdiv :: "jsnum \<Rightarrow> jsnum \<Rightarrow> jsnum" where
  "jdiv NaN _ = NaN"
| "jdiv _ NaN = NaN"
| "jdiv (Fin a) (Fin b) =
     (if b \<noteq> 0 then Fin (a / b)
      else if a = 0 then NaN else if 0 < a then PInf else NInf)"
| "jdiv (Fin a) PInf = Fin 0"
| "jdiv (Fin a) NInf = Fin 0"
| "jdiv PInf (Fin b) = (if 0 \<le> b then PInf else NInf)"
| "jdiv NInf (Fin b) = (if 0 \<le> b then NInf else PInf)"
| "jdiv PInf PInf = NaN"
| "jdiv PInf NInf = NaN"
| "jdiv NInf PInf = NaN"
| "jdiv NInf NInf = NaN"

text \<open>The comparison operators: every comparison with \<open>NaN\<close> is false.\<close>

fun jlt :: "jsnum \<Rightarrow> jsnum \<Rightarrow> bool" where
  "jlt NaN _ = False"
| "jlt _ NaN = False"
| "jlt _ NInf = False"
| "jlt NInf _ = True"
| "jlt PInf _ = False"
| "jlt _ PInf = True"
| "jlt (Fin a) (Fin b) = (a < b)"

definition jgt :: "jsnum \<Rightarrow> jsnum \<Rightarrow> bool" where
  "jgt a b = jlt b a"

definition jle :: "jsnum \<Rightarrow> jsnum \<Rightarrow> bool" where
  "jle a b = (a \<noteq> NaN \<and> b \<noteq> NaN \<and> \<not> jlt b a)"


text \<open>\<^verbatim>\<open>Math.min\<close> and \<^verbatim>\<open>Math.max\<close> return \<open>NaN\<close> as soon as one argument is \<open>NaN\<close>.\<close>

definition Math_min :: "jsnum \<Rightarrow> jsnum \<Rightarrow> jsnum" where
  "Math_min a b = (if a = NaN \<or> b = NaN then NaN else if jlt b a then b else a)"

definition Math_max :: "jsnum \<Rightarrow> jsnum \<Rightarrow> jsnum" where
  "Math_max a b = (if a = NaN \<or> b = NaN then NaN else if jlt a b then b else a)"

text \<open>\<^verbatim>\<open>x || d\<close> on a finite number: zero is the only falsy finite value.\<close>

definition num_or :: "real \<Rightarrow> real \<Rightarrow> real" where
  "num_or x d = (if x = 0 then d else x)"

section \<open>Data model (types.ts)\<close>

datatype RiskLevel = LOW | MEDIUM | HIGH | EXTREME

datatype StrategyType =
    ARBITRAGE | MEV | LIQUIDATION | FLASH_LOAN | MARKET_MAKING | TREND_FOLLOWING
  | MEAN_REVERSION | MOMENTUM | STATISTICAL_ARBITRAGE | TRIANGULAR_ARBITRAGE | CROSS_DEX
  | CROSS_CHAIN | SANDWICH | FRONTRUN | BACKRUN | JIT_LIQUIDITY | VOLUME_ANALYSIS
  | ORDERBOOK_IMBALANCE | FUNDING_RATE | BASIS_TRADING

text \<open>
  An opportunity. The fields \<^verbatim>\<open>tokens\<close>, \<^verbatim>\<open>dexes\<close>, \<^verbatim>\<open>chainId\<close> and \<^verbatim>\<open>metadata\<close> are read by
  none of the functions modelled here and are left out.
\<close>

record Opportunity =
  id :: string
  type :: StrategyType
  riskLevel :: RiskLevel
  estimatedProfit :: real
  estimatedProfitUSD :: real
  confidence :: real
  gasEstimate :: real
  timestamp :: real
  expiresAt :: real

section \<open>AIDecisionEngine\<close>

text \<open>The entries of the private map \<^verbatim>\<open>strategyPerformance\<close>.\<close>

record StrategyPerf =
  successRate :: real
  avgProfit :: real
  totalTrades :: nat
  recentPerformance :: "nat list"

type_synonym perf_map = "StrategyType \<rightharpoonup> StrategyPerf"

fun typeRisk :: "StrategyType \<Rightarrow> real" where
  "typeRisk ARBITRAGE = 0.2"
| "typeRisk CROSS_DEX = 0.3"
| "typeRisk TRIANGULAR_ARBITRAGE = 0.4"
| "typeRisk FLASH_LOAN = 0.7"
| "typeRisk MEV = 0.6"
| "typeRisk SANDWICH = 0.8"
| "typeRisk FRONTRUN = 0.9"
| "typeRisk BACKRUN = 0.5"
| "typeRisk LIQUIDATION = 0.5"
| "typeRisk MARKET_MAKING = 0.3"
| "typeRisk TREND_FOLLOWING = 0.4"
| "typeRisk MEAN_REVERSION = 0.4"
| "typeRisk MOMENTUM = 0.5"
| "typeRisk STATISTICAL_ARBITRAGE = 0.3"
| "typeRisk CROSS_CHAIN = 0.6"
| "typeRisk JIT_LIQUIDITY = 0.5"
| "typeRisk VOLUME_ANALYSIS = 0.3"
| "typeRisk ORDERBOOK_IMBALANCE = 0.4"
| "typeRisk FUNDING_RATE = 0.3"
| "typeRisk BASIS_TRADING = 0.3"

text \<open>
  \<^verbatim>\<open>calculateRiskScore\<close>. The argument \<open>now\<close> is the value \<^verbatim>\<open>Date.now()\<close> returns. The
  division by \<^verbatim>\<open>estimatedProfitUSD\<close> is not guarded in the source.
\<close>

definition calculateRiskScore :: "real \<Rightarrow> Opportunity \<Rightarrow> jsnum" where
  "calculateRiskScore now opp =
    (let score0 = Fin 0;
         score1 = jadd score0 (Fin (num_or (typeRisk (Opportunity.type opp)) 0.5));
         gasCostPercent =
           jdiv (Fin (Opportunity.gasEstimate opp * 50)) (Fin (Opportunity.estimatedProfitUSD opp));
         score2 = jadd score1 (Math_min (jdiv gasCostPercent (Fin 100)) (Fin 0.3));
         timeToExpiry = Opportunity.expiresAt opp - now;
         score3 =
           (if timeToExpiry < 1000 then jadd score2 (Fin 0.3)
            else if timeToExpiry < 5000 then jadd score2 (Fin 0.2)
            else if timeToExpiry < 10000 then jadd score2 (Fin 0.1)
            else score2);
         score4 = jadd score3 (Fin ((1 - Opportunity.confidence opp) * 0.3))
     in Math_min (Math_max score4 (Fin 0)) (Fin 1))"

text \<open>
  \<^verbatim>\<open>calculateProfitProbability\<close>. The divisor \<^verbatim>\<open>gasEstimate * 50 || 1\<close> is never zero, so
  the quotient is finite.
\<close>

definition calculateProfitProbability :: "perf_map \<Rightarrow> Opportunity \<Rightarrow> real" where
  "calculateProfitProbability strategyPerformance opp =
    (let probability0 = Opportunity.confidence opp;
         probability1 =
           (case strategyPerformance (Opportunity.type opp) of
              Some strategyPerf \<Rightarrow> (probability0 + StrategyPerf.successRate strategyPerf) / 2
            | None \<Rightarrow> probability0);
         profitMargin =
           Opportunity.estimatedProfitUSD opp / num_or (Opportunity.gasEstimate opp * 50) 1;
         probability2 =
           (if profitMargin > 5 then probability1 + 0.1
            else if profitMargin > 2 then probability1 + 0.05
            else if profitMargin < 1.2 then probability1 - 0.2
            else probability1)
     in min (max probability2 0) 1)"

text \<open>\<^verbatim>\<open>analyzeMarketConditions\<close>; \<open>hour\<close> is \<^verbatim>\<open>new Date().getHours()\<close>.\<close>

definition analyzeMarketConditions :: "nat \<Rightarrow> Opportunity \<Rightarrow> real" where
  "analyzeMarketConditions hour opp =
    (let score0 = 0.7;
         score1 = (if hour \<ge> 9 \<and> hour \<le> 16 then score0 + 0.1 else score0);
         score2 = (if hour \<ge> 0 \<and> hour \<le> 4 then score1 - 0.1 else score1)
     in min (max score2 0) 1)"

fun defaultReliability :: "StrategyType \<Rightarrow> real option" where
  "defaultReliability ARBITRAGE = Some 0.8"
| "defaultReliability CROSS_DEX = Some 0.75"
| "defaultReliability TRIANGULAR_ARBITRAGE = Some 0.7"
| "defaultReliability MARKET_MAKING = Some 0.7"
| "defaultReliability STATISTICAL_ARBITRAGE = Some 0.75"
| "defaultReliability _ = None"

definition getStrategyReliability :: "perf_map \<Rightarrow> StrategyType \<Rightarrow> real" where
  "getStrategyReliability strategyPerformance strategyType =
    (case strategyPerformance strategyType of
       None \<Rightarrow>
         (case defaultReliability strategyType of Some d \<Rightarrow> num_or d 0.6 | None \<Rightarrow> 0.6)
     | Some perf \<Rightarrow>
         if StrategyPerf.totalTrades perf < 10
         then (case defaultReliability strategyType of Some d \<Rightarrow> num_or d 0.6 | None \<Rightarrow> 0.6)
         else StrategyPerf.successRate perf)"

text \<open>\<^verbatim>\<open>analyzeTimingFactors\<close> reads the clock twice: \<open>now1\<close>, then \<open>now2\<close>.\<close>

definition analyzeTimingFactors :: "real \<Rightarrow> real \<Rightarrow> Opportunity \<Rightarrow> real" where
  "analyzeTimingFactors now1 now2 opp =
    (let timeToExpiry = Opportunity.expiresAt opp - now1;
         age = now2 - Opportunity.timestamp opp;
         score0 = 1.0;
         score1 =
           (if age > 5000 then score0 - 0.3 else if age > 2000 then score0 - 0.1 else score0);
         score2 =
           (if timeToExpiry < 1000 then score1 - 0.4
            else if timeToExpiry < 3000 then score1 - 0.2
            else score1)
     in min (max score2 0) 1)"

record Factors =
  riskScore :: jsnum
  profitProbability :: jsnum
  marketConditions :: jsnum
  strategyReliability :: jsnum
  timingScore :: jsnum

definition calculateConfidence :: "Factors \<Rightarrow> jsnum" where
  "calculateConfidence factors =
    (let confidence =
           jadd (jadd (jadd (jadd
             (jmul (jsub (Fin 1) (Factors.riskScore factors)) (Fin 0.25))
             (jmul (profitProbability factors) (Fin 0.30)))
             (jmul (marketConditions factors) (Fin 0.15)))
             (jmul (strategyReliability factors) (Fin 0.20)))
             (jmul (timingScore factors) (Fin 0.10))
     in Math_min (Math_max confidence (Fin 0)) (Fin 1))"

text \<open>
  \<^verbatim>\<open>shouldExecuteTrade(confidence, riskScore, opportunity)\<close>; the first two parameters
  are written \<open>conf\<close> and \<open>risk\<close> here.
\<close>

definition shouldExecuteTrade :: "jsnum \<Rightarrow> jsnum \<Rightarrow> Opportunity \<Rightarrow> bool" where
  "shouldExecuteTrade conf risk opp =
    (if jlt conf (Fin 0.6) then False
     else if jgt risk (Fin 0.7) \<and> jlt conf (Fin 0.85) then False
     else if jgt risk (Fin 0.5) \<and> jlt conf (Fin 0.75) then False
     else if Opportunity.estimatedProfitUSD opp < 1.0 then False
     else
       (let profitAfterGas =
              Opportunity.estimatedProfitUSD opp - Opportunity.gasEstimate opp * 50
        in if profitAfterGas < 0.5 then False else True))"

definition getRiskLevel :: "jsnum \<Rightarrow> RiskLevel" where
  "getRiskLevel risk =
    (if jlt risk (Fin 0.3) then LOW
     else if jlt risk (Fin 0.6) then MEDIUM
     else if jlt risk (Fin 0.8) then HIGH
     else EXTREME)"

fun complementary :: "StrategyType \<Rightarrow> StrategyType list option" where
  "complementary ARBITRAGE = Some [CROSS_DEX, TRIANGULAR_ARBITRAGE]"
| "complementary FLASH_LOAN = Some [ARBITRAGE, LIQUIDATION]"
| "complementary MEV = Some [SANDWICH, BACKRUN]"
| "complementary _ = None"

definition recommendStrategies :: "Opportunity \<Rightarrow> StrategyType list" where
  "recommendStrategies opp =
    (case complementary (Opportunity.type opp) of
       Some related \<Rightarrow> [Opportunity.type opp] @ related
     | None \<Rightarrow> [Opportunity.type opp])"

text \<open>
  The decision. The rationale string and the list of risk factors are texts for the log
  and are left out.
\<close>

record AIDecision =
  shouldExecute :: bool
  confidence :: jsnum
  recommendedStrategies :: "StrategyType list"
  overallRisk :: RiskLevel
  score :: jsnum
  expectedProfit :: real

text \<open>
  \<^verbatim>\<open>analyzeOpportunity\<close>. The clock is read once in \<^verbatim>\<open>calculateRiskScore\<close> (\<open>nowRisk\<close>) and
  twice in \<^verbatim>\<open>analyzeTimingFactors\<close> (\<open>now1\<close>, \<open>now2\<close>).
\<close>

definition analyzeOpportunity ::
  "perf_map \<Rightarrow> real \<Rightarrow> nat \<Rightarrow> real \<Rightarrow> real \<Rightarrow> Opportunity \<Rightarrow> AIDecision" where
  "analyzeOpportunity strategyPerformance nowRisk hour now1 now2 opp =
    (let riskScore = calculateRiskScore nowRisk opp;
         profitProbability = calculateProfitProbability strategyPerformance opp;
         marketConditions = analyzeMarketConditions hour opp;
         strategyReliability = getStrategyReliability strategyPerformance (Opportunity.type opp);
         timingScore = analyzeTimingFactors now1 now2 opp;
         confidence = calculateConfidence
           \<lparr> riskScore = riskScore,
             profitProbability = Fin profitProbability,
             marketConditions = Fin marketConditions,
             strategyReliability = Fin strategyReliability,
             timingScore = Fin timingScore \<rparr>;
         shouldExecute = shouldExecuteTrade confidence riskScore opp
     in \<lparr> shouldExecute = shouldExecute,
          confidence = confidence,
          recommendedStrategies = recommendStrategies opp,
          overallRisk = getRiskLevel riskScore,
          score = riskScore,
          expectedProfit = Opportunity.estimatedProfitUSD opp \<rparr>)"

text \<open>
  \<^verbatim>\<open>AIDecisionEngine.updateStrategyPerformance\<close>, on the map \<^verbatim>\<open>strategyPerformance\<close>. Both
  divisors are at least one when the division is made: the window has just received an
  entry, and \<^verbatim>\<open>totalTrades\<close> has just been incremented.
\<close>

definition AIDecisionEngine_updateStrategyPerformance ::
  "StrategyType \<Rightarrow> bool \<Rightarrow> real \<Rightarrow> perf_map \<Rightarrow> perf_map" where
  "AIDecisionEngine_updateStrategyPerformance strategyType success profit strategyPerformance =
    (let perf0 =
           (case strategyPerformance strategyType of
              Some perf \<Rightarrow> perf
            | None \<Rightarrow> \<lparr> successRate = 0, avgProfit = 0, totalTrades = 0, recentPerformance = [] \<rparr>);
         perf1 = perf0\<lparr> totalTrades := totalTrades perf0 + 1 \<rparr>;
         perf2 = perf1\<lparr> recentPerformance :=
                   recentPerformance perf1 @ [if success then 1 else 0] \<rparr>;
         perf3 =
           (if length (recentPerformance perf2) > 100
            then perf2\<lparr> recentPerformance := tl (recentPerformance perf2) \<rparr>
            else perf2);
         recentSuccesses = length (filter (\<lambda>x. x = 1) (recentPerformance perf3));
         perf4 = perf3\<lparr> successRate :=
                   real recentSuccesses / real (length (recentPerformance perf3)) \<rparr>;
         perf5 = perf4\<lparr> avgProfit :=
                   (avgProfit perf4 * (real (totalTrades perf4) - 1) + profit)
                     / real (totalTrades perf4) \<rparr>
     in strategyPerformance(strategyType \<mapsto> perf5))"

text \<open>
  The map after a sequence of calls \<^verbatim>\<open>updateStrategyPerformance(strategyType, success, profit)\<close>,
  made in the order of the list.
\<close>

fun performance_after :: "(StrategyType \<times> bool \<times> real) list \<Rightarrow> perf_map \<Rightarrow> perf_map" where
  "performance_after [] strategyPerformance = strategyPerformance"
| "performance_after ((strategyType, success, profit) # calls) strategyPerformance =
     performance_after calls
       (AIDecisionEngine_updateStrategyPerformance strategyType success profit strategyPerformance)"

section \<open>FlashLoanEngine\<close>

text \<open>
  The arithmetic of a double overflows: a finite result whose magnitude reaches
  \<open>2^1024 - 2^970\<close> is rounded to an infinity. \<open>dadd\<close>, \<open>dsub\<close>, \<open>dmul\<close> and \<open>ddiv\<close> are
  \<^verbatim>\<open>+\<close>, \<^verbatim>\<open>-\<close>, \<^verbatim>\<open>*\<close> and \<^verbatim>\<open>/\<close> with that overflow.
\<close>

definition overflow :: "jsnum \<Rightarrow> jsnum" where
  "overflow x =
    (case x of
       Fin a \<Rightarrow>
         if 2 ^ 1024 - 2 ^ 970 \<le> a then PInf
         else if a \<le> - (2 ^ 1024 - 2 ^ 970) then NInf
         else Fin a
     | _ \<Rightarrow> x)"

definition dadd :: "jsnum \<Rightarrow> jsnum \<Rightarrow> jsnum" where
  "dadd a b = overflow (jadd a b)"

definition dsub :: "jsnum \<Rightarrow> jsnum \<Rightarrow> jsnum" where
  "dsub a b = overflow (jsub a b)"

definition dmul :: "jsnum \<Rightarrow> jsnum \<Rightarrow> jsnum" where
  "dmul a b = overflow (jmul a b)"

definition ddiv :: "jsnum \<Rightarrow> jsnum \<Rightarrow> jsnum" where
  "ddiv a b = overflow (jdiv a b)"

text \<open>
  \<^verbatim>\<open>calculateConfidence(profitPercent, netProfit)\<close> and
  \<^verbatim>\<open>calculateRiskScore(loanAmount, profitPercent)\<close> of the flash-loan engine. The
  arguments are compared only; the results are sums of the constants, so they are finite.
\<close>

definition FlashLoanEngine_calculateConfidence :: "jsnum \<Rightarrow> jsnum \<Rightarrow> real" where
  "FlashLoanEngine_calculateConfidence profitPercent netProfit =
    (let confidence0 = 0.5;
         confidence1 =
           (if jgt profitPercent (Fin 2.0) then confidence0 + 0.3
            else if jgt profitPercent (Fin 1.0) then confidence0 + 0.2
            else if jgt profitPercent (Fin 0.5) then confidence0 + 0.1
            else confidence0);
         confidence2 =
           (if jgt netProfit (Fin 1.0) then confidence1 + 0.2
            else if jgt netProfit (Fin 0.5) then confidence1 + 0.1
            else confidence1)
     in min confidence2 0.95)"

definition FlashLoanEngine_calculateRiskScore :: "jsnum \<Rightarrow> jsnum \<Rightarrow> real" where
  "FlashLoanEngine_calculateRiskScore loanAmount profitPercent =
    (let risk0 = 0.3;
         risk1 =
           (if jgt loanAmount (Fin 500) then risk0 + 0.3
            else if jgt loanAmount (Fin 100) then risk0 + 0.2
            else if jgt loanAmount (Fin 50) then risk0 + 0.1
            else risk0);
         risk2 =
           (if jlt profitPercent (Fin 0.5) then risk1 + 0.3
            else if jlt profitPercent (Fin 1.0) then risk1 + 0.2
            else if jlt profitPercent (Fin 2.0) then risk1 + 0.1
            else risk1)
     in min risk2 0.95)"

datatype ChainId = ETHEREUM | BSC | POLYGON | ARBITRUM | OPTIMISM | AVALANCHE | FANTOM

record Token =
  address :: string
  symbol :: string
  decimals :: nat
  chainId :: ChainId
  name :: "string option"

datatype StepAction = SWAP | BORROW | REPAY | TRANSFER

record FlashLoanStep =
  action :: StepAction
  dex :: "string option"
  tokenIn :: "Token option"
  tokenOut :: "Token option"
  amountIn :: "jsnum option"
  expectedAmountOut :: "jsnum option"
  slippage :: "real option"

record FlashLoanOpportunity =
  id :: string
  loanAmount :: jsnum
  loanToken :: Token
  estimatedProfit :: jsnum
  estimatedProfitUSD :: jsnum
  confidence :: real
  riskScore :: real
  steps :: "FlashLoanStep list"
  gasEstimate :: real
  timestamp :: real

text \<open>
  The price signal that \<^verbatim>\<open>analyzeFlashLoanOpportunity\<close> receives. The prices come from
  the price feed, which stores \<^verbatim>\<open>1 / parseFloat(rate)\<close> for a quoted rate: a rate of zero
  gives an infinite price, a rate that is no number gives \<open>NaN\<close>.
\<close>

record Arbitrage =
  token :: string
  buySource :: string
  sellSource :: string
  buyPrice :: jsnum
  sellPrice :: jsnum
  profitPercent :: jsnum

definition createToken :: "string \<Rightarrow> ChainId \<Rightarrow> Token" where
  "createToken = (\<lambda>symbol chainId.
    \<lparr> address = ''0x0000000000000000000000000000000000000000'',
      symbol = symbol, decimals = 18, chainId = chainId, name = Some symbol \<rparr>)"

text \<open>
  \<^verbatim>\<open>getETHPrice\<close>; \<open>averagePrice\<close> is what \<^verbatim>\<open>priceFeedAggregator.getAveragePrice('ETH')\<close>
  returns, \<open>None\<close> for \<^verbatim>\<open>null\<close>. \<^verbatim>\<open>ethPrice || 2000\<close> takes the default for \<^verbatim>\<open>null\<close>, zero
  and \<open>NaN\<close>.
\<close>

definition getETHPrice :: "jsnum option \<Rightarrow> jsnum" where
  "getETHPrice averagePrice =
    (case averagePrice of
       None \<Rightarrow> Fin 2000
     | Some ethPrice \<Rightarrow> if ethPrice = NaN \<or> ethPrice = Fin 0 then Fin 2000 else ethPrice)"

text \<open>
  \<^verbatim>\<open>analyzeFlashLoanOpportunity\<close>. \<open>flashLoanAmountETH\<close> is the configured loan amount
  \<^verbatim>\<open>config.trading.flashLoanAmountETH\<close> (the result of a \<^verbatim>\<open>parseFloat\<close>, so possibly \<open>NaN\<close>),
  \<open>uuid\<close> the identifier \<^verbatim>\<open>uuidv4()\<close> returns and \<open>now\<close> the clock. \<open>None\<close> is \<^verbatim>\<open>null\<close>. The
  guard is \<^verbatim>\<open>netProfit <= 0\<close>, which is false when \<^verbatim>\<open>netProfit\<close> is \<open>NaN\<close>. No operation
  of the \<^verbatim>\<open>try\<close> block raises, so the \<^verbatim>\<open>catch\<close> branch has no counterpart.
\<close>

definition analyzeFlashLoanOpportunity ::
  "jsnum \<Rightarrow> jsnum option \<Rightarrow> string \<Rightarrow> real \<Rightarrow> Arbitrage \<Rightarrow> FlashLoanOpportunity option" where
  "analyzeFlashLoanOpportunity flashLoanAmountETH averagePrice uuid now arbitrage =
    (let loanAmount = flashLoanAmountETH;
         buyValue = dmul loanAmount (buyPrice arbitrage);
         sellValue = dmul loanAmount (sellPrice arbitrage);
         grossProfit = dsub sellValue buyValue;
         flashLoanFee = dmul loanAmount (Fin 0.0009);
         gasCost = Fin 0.5;
         slippageCost = dmul grossProfit (Fin 0.005);
         netProfit = dsub (dsub (dsub grossProfit flashLoanFee) gasCost) slippageCost
     in if jle netProfit (Fin 0) then None
        else
          (let confidence = FlashLoanEngine_calculateConfidence (profitPercent arbitrage) netProfit;
               riskScore = FlashLoanEngine_calculateRiskScore loanAmount (profitPercent arbitrage);
               steps =
                 [ \<lparr> action = BORROW, dex = None,
                     tokenIn = Some (createToken ''ETH'' ETHEREUM), tokenOut = None,
                     amountIn = Some loanAmount, expectedAmountOut = None,
                     slippage = None \<rparr>,
                   \<lparr> action = SWAP, dex = Some (buySource arbitrage),
                     tokenIn = Some (createToken ''ETH'' ETHEREUM),
                     tokenOut = Some (createToken (token arbitrage) ETHEREUM),
                     amountIn = Some loanAmount,
                     expectedAmountOut = Some (ddiv loanAmount (buyPrice arbitrage)),
                     slippage = Some 0.5 \<rparr>,
                   \<lparr> action = SWAP, dex = Some (sellSource arbitrage),
                     tokenIn = Some (createToken (token arbitrage) ETHEREUM),
                     tokenOut = Some (createToken ''ETH'' ETHEREUM),
                     amountIn = Some (ddiv loanAmount (buyPrice arbitrage)),
                     expectedAmountOut =
                       Some (dmul (ddiv loanAmount (buyPrice arbitrage)) (sellPrice arbitrage)),
                     slippage = Some 0.5 \<rparr>,
                   \<lparr> action = REPAY, dex = None, tokenIn = None,
                     tokenOut = Some (createToken ''ETH'' ETHEREUM),
                     amountIn = Some (dadd loanAmount flashLoanFee),
                     expectedAmountOut = None, slippage = None \<rparr> ]
           in Some
                \<lparr> FlashLoanOpportunity.id = uuid,
                  loanAmount = loanAmount,
                  loanToken = createToken ''ETH'' ETHEREUM,
                  estimatedProfit = netProfit,
                  estimatedProfitUSD = dmul netProfit (getETHPrice averagePrice),
                  confidence = confidence,
                  riskScore = riskScore,
                  steps = steps,
                  gasEstimate = 500000,
                  timestamp = now \<rparr>))"

section \<open>StrategyRegistry\<close>

record StrategyParameters =
  slippage :: real
  maxRetries :: nat
  timeout :: real

text \<open>
  A strategy record. The two closures \<^verbatim>\<open>execute\<close> and \<^verbatim>\<open>analyze\<close> are the same for every
  strategy and are not fields here; \<^verbatim>\<open>execute\<close> is a parameter of the dispatcher below.
\<close>

record Strategy =
  id :: string
  name :: string
  type :: StrategyType
  riskLevel :: RiskLevel
  enabled :: bool
  priority :: real
  minProfitUSD :: real
  maxGasPrice :: real
  successRate :: real
  totalTrades :: nat
  profitabletrades :: nat
  totalProfitUSD :: real
  averageExecutionTime :: real
  lastExecuted :: "real option"
  parameters :: StrategyParameters

record TradeResult =
  success :: bool
  transactionHash :: "string option"
  profit :: "real option"
  profitUSD :: "real option"
  gasUsed :: "real option"
  executionTime :: real
  error :: "string option"
  timestamp :: real

text \<open>
  The private \<^verbatim>\<open>Map<string, Strategy>\<close> of the registry, as the list of its entries in
  insertion order: \<^verbatim>\<open>Map.values()\<close> iterates in that order. \<^verbatim>\<open>Map.get\<close> is \<open>map_of\<close>.
\<close>

type_synonym strategy_map = "(string \<times> Strategy) list"

text \<open>
  The strategy objects are shared: a write to the object that \<^verbatim>\<open>Map.get\<close> returned is a
  write to the entry of the map. \<open>store key s\<close> replaces the value of the entry that
  \<open>map_of\<close> finds for \<open>key\<close> and keeps every entry in its place.
\<close>

fun store :: "string \<Rightarrow> Strategy \<Rightarrow> strategy_map \<Rightarrow> strategy_map" where
  "store key s [] = []"
| "store key s ((k, v) # entries) =
     (if k = key then (k, s) # entries else (k, v) # store key s entries)"

definition getAllStrategies :: "strategy_map \<Rightarrow> Strategy list" where
  "getAllStrategies strategies = map snd strategies"

definition getStrategiesByType :: "StrategyType \<Rightarrow> strategy_map \<Rightarrow> Strategy list" where
  "getStrategiesByType strategyType strategies =
     filter (\<lambda>s. Strategy.type s = strategyType) (map snd strategies)"

text \<open>
  \<^verbatim>\<open>StrategyRegistry.updateStrategyPerformance(id, result)\<close>; the identifier is written
  \<open>key\<close>, and \<open>now\<close> is the clock. \<^verbatim>\<open>totalTrades\<close> has been incremented when the two
  divisions are made, so the divisor is at least one.
\<close>

definition StrategyRegistry_updateStrategyPerformance ::
  "string \<Rightarrow> TradeResult \<Rightarrow> real \<Rightarrow> strategy_map \<Rightarrow> strategy_map" where
  "StrategyRegistry_updateStrategyPerformance key result now strategies =
    (case map_of strategies key of
       None \<Rightarrow> strategies
     | Some strategy \<Rightarrow>
         (let s1 = strategy\<lparr> Strategy.totalTrades := Strategy.totalTrades strategy + 1 \<rparr>;
              s2 =
                (if success result
                 then s1\<lparr> profitabletrades := profitabletrades s1 + 1,
                          totalProfitUSD := totalProfitUSD s1 +
                            (case profitUSD result of None \<Rightarrow> 0 | Some p \<Rightarrow> num_or p 0) \<rparr>
                 else s1);
              s3 = s2\<lparr> Strategy.successRate :=
                          real (profitabletrades s2) / real (Strategy.totalTrades s2) \<rparr>;
              s4 = s3\<lparr> averageExecutionTime :=
                          (averageExecutionTime s3 * (real (Strategy.totalTrades s3) - 1)
                             + executionTime result)
                            / real (Strategy.totalTrades s3) \<rparr>;
              s5 = s4\<lparr> lastExecuted := Some now \<rparr>
          in store key s5 strategies))"

text \<open>
  \<^verbatim>\<open>Array.prototype.sort\<close> with a comparator \<^verbatim>\<open>(a, b) => f(b) - f(a)\<close> on finite numbers:
  the sort is stable (ECMAScript 2019), so the result is the list in descending order of
  \<open>f\<close> with equal elements in their original order.
\<close>

definition sort_descending :: "('a \<Rightarrow> real) \<Rightarrow> 'a list \<Rightarrow> 'a list" where
  "sort_descending f xs = sort_key (\<lambda>x. - f x) xs"

text \<open>
  \<^verbatim>\<open>Array.prototype.slice(0, stop)\<close> for an integer \<open>stop\<close>: a negative \<open>stop\<close> counts
  from the end of the array.
\<close>

definition slice0 :: "int \<Rightarrow> 'a list \<Rightarrow> 'a list" where
  "slice0 stop xs =
    (if stop < 0 then take (nat (int (length xs) + stop)) xs else take (nat stop) xs)"

text \<open>
  The score of the comparator of \<^verbatim>\<open>getTopPerformingStrategies\<close>, and the function itself.
  The caller passes \<open>limit\<close>; the source takes 10 when the argument is left out.
\<close>

definition performance_score :: "Strategy \<Rightarrow> real" where
  "performance_score s = Strategy.successRate s * totalProfitUSD s"

definition getTopPerformingStrategies :: "int \<Rightarrow> strategy_map \<Rightarrow> Strategy list" where
  "getTopPerformingStrategies limit strategies =
     slice0 limit
       (sort_descending performance_score
          (filter (\<lambda>s. Strategy.totalTrades s > 0) (map snd strategies)))"

section \<open>UltraHighFrequencyEngine\<close>

definition maxQueueSize :: nat where
  "maxQueueSize = 1000000"

definition addOpportunity :: "Opportunity \<Rightarrow> Opportunity list \<Rightarrow> Opportunity list" where
  "addOpportunity opportunity opportunityQueue =
    (if length opportunityQueue < maxQueueSize
     then opportunityQueue @ [opportunity]
     else opportunityQueue)"

text \<open>The result object of the three rejecting branches of \<^verbatim>\<open>executeOpportunity\<close>.\<close>

definition failed :: "real \<Rightarrow> real \<Rightarrow> string \<Rightarrow> TradeResult" where
  "failed elapsed now message =
    \<lparr> success = False, transactionHash = None, profit = None, profitUSD = None,
      gasUsed = None, executionTime = elapsed, error = Some message, timestamp = now \<rparr>"

text \<open>
  \<^verbatim>\<open>executeOpportunity\<close>, with the registry as explicit state. \<open>aiProbability\<close> is what the
  predictor returns, \<open>confidenceThreshold\<close> is \<^verbatim>\<open>config.ai.confidenceThreshold\<close>, \<open>execute\<close>
  is the execution of a strategy on an opportunity (\<open>Inl message\<close> when it throws), and
  \<open>startTime\<close>, \<open>now1\<close>, \<open>now2\<close>, \<open>nowUpdate\<close> are the readings of the clock: at the start,
  the two of a rejecting branch, and the one of \<^verbatim>\<open>updateStrategyPerformance\<close>.
\<close>

definition executeOpportunity ::
  "real \<Rightarrow> real \<Rightarrow> (Strategy \<Rightarrow> Opportunity \<Rightarrow> string + TradeResult) \<Rightarrow>
   real \<Rightarrow> real \<Rightarrow> real \<Rightarrow> real \<Rightarrow> Opportunity \<Rightarrow> strategy_map \<Rightarrow>
   TradeResult \<times> strategy_map" where
  "executeOpportunity aiProbability confidenceThreshold execute startTime now1 now2 nowUpdate
     opportunity registry =
    (if aiProbability < confidenceThreshold
     then (failed (now1 - startTime) now2 ''AI confidence too low'', registry)
     else
       (let strategies = getStrategiesByType (Opportunity.type opportunity) registry
        in if length strategies = 0
           then (failed (now1 - startTime) now2 ''No strategy available'', registry)
           else
             (let strategy = hd (sort_descending priority strategies)
              in case execute strategy opportunity of
                   Inl message \<Rightarrow> (failed (now1 - startTime) now2 message, registry)
                 | Inr result \<Rightarrow>
                     (result,
                      StrategyRegistry_updateStrategyPerformance
                        (Strategy.id strategy) result nowUpdate registry))))"

section \<open>Statements of the specification\<close>

text \<open>
  The invariant that the specification states of an entry of the performance map: the
  window holds at most 100 outcomes and the stored success rate is the number of
  successes in the window divided by its length (the window is not empty).
\<close>

definition window_ok :: "StrategyPerf \<Rightarrow> bool" where
  "window_ok perf \<longleftrightarrow>
     length (recentPerformance perf) \<le> 100 \<and> recentPerformance perf \<noteq> [] \<and>
     StrategyPerf.successRate perf =
       real (length (filter (\<lambda>x. x = 1) (recentPerformance perf)))
         / real (length (recentPerformance perf))"

text \<open>
  The selection that the specification describes for the dispatch cycle: among the
  \<^emph>\<open>enabled\<close> strategies of the opportunity's category, the one of highest priority, the
  earliest registered among equals; a rejected outcome when there is none.
  \<open>first_max f xs\<close> is the earliest element of \<open>xs\<close> at which \<open>f\<close> is greatest.
\<close>

fun first_max :: "('a \<Rightarrow> real) \<Rightarrow> 'a list \<Rightarrow> 'a option" where
  "first_max f [] = None"
| "first_max f (x # xs) =
     (case first_max f xs of
        None \<Rightarrow> Some x
      | Some y \<Rightarrow> if f x < f y then Some y else Some x)"

definition spec_executeOpportunity ::
  "real \<Rightarrow> real \<Rightarrow> (Strategy \<Rightarrow> Opportunity \<Rightarrow> string + TradeResult) \<Rightarrow>
   real \<Rightarrow> real \<Rightarrow> real \<Rightarrow> real \<Rightarrow> Opportunity \<Rightarrow> strategy_map \<Rightarrow>
   TradeResult \<times> strategy_map" where
  "spec_executeOpportunity aiProbability confidenceThreshold execute startTime now1 now2 nowUpdate
     opportunity registry =
    (if aiProbability < confidenceThreshold
     then (failed (now1 - startTime) now2 ''AI confidence too low'', registry)
     else
       (case first_max priority
               (filter (\<lambda>s. enabled s \<and> Strategy.type s = Opportunity.type opportunity)
                  (map snd registry)) of
          None \<Rightarrow> (failed (now1 - startTime) now2 ''No strategy available'', registry)
        | Some strategy \<Rightarrow>
            (case execute strategy opportunity of
               Inl message \<Rightarrow> (failed (now1 - startTime) now2 message, registry)
             | Inr result \<Rightarrow>
                 (result,
                  StrategyRegistry_updateStrategyPerformance
                    (Strategy.id strategy) result nowUpdate registry))))"

text \<open>
  The tie-break that the specification describes for the ranking: records of equal score
  are in the order of their identifiers. \<open>string_le\<close> compares two strings code unit by
  code unit.
\<close>

fun string_le :: "string \<Rightarrow> string \<Rightarrow> bool" where
  "string_le [] ys = True"
| "string_le (x # xs) [] = False"
| "string_le (x # xs) (y # ys) =
     ((of_char x :: nat) < of_char y \<or> (x = y \<and> string_le xs ys))"

definition ties_by_identifier :: "Strategy list \<Rightarrow> bool" where
  "ties_by_identifier ranked =
     sorted_wrt (\<lambda>a b. performance_score a = performance_score b \<longrightarrow>
                   string_le (Strategy.id a) (Strategy.id b)) ranked"

section \<open>Example inputs\<close>

definition opp1 :: Opportunity where
  "opp1 =
    \<lparr> Opportunity.id = ''opp-1'', Opportunity.type = ARBITRAGE, Opportunity.riskLevel = LOW,
      Opportunity.estimatedProfit = 0.005, Opportunity.estimatedProfitUSD = 10,
      Opportunity.confidence = 0.9, Opportunity.gasEstimate = 0.01,
      Opportunity.timestamp = 0, expiresAt = 60000 \<rparr>"

text \<open>
  The entry of the performance map after a successful trade of profit 10 and a failed
  trade of profit 0.
\<close>

definition perf_two_trades :: StrategyPerf where
  "perf_two_trades =
    \<lparr> StrategyPerf.successRate = 1 / 2, avgProfit = 5, StrategyPerf.totalTrades = 2,
      recentPerformance = [1, 0] \<rparr>"

text \<open>An opportunity with no estimated profit and no estimated gas.\<close>

definition opp0 :: Opportunity where
  "opp0 =
    \<lparr> Opportunity.id = ''opp-0'', Opportunity.type = ARBITRAGE, Opportunity.riskLevel = LOW,
      Opportunity.estimatedProfit = 0, Opportunity.estimatedProfitUSD = 0,
      Opportunity.confidence = 0.9, Opportunity.gasEstimate = 0,
      Opportunity.timestamp = 0, expiresAt = 60000 \<rparr>"

text \<open>The price signal of the example of the specification: a spread of one percent.\<close>

definition arb1 :: Arbitrage where
  "arb1 = \<lparr> token = ''USDC'', buySource = ''binance'', sellSource = ''coinbase'',
            buyPrice = Fin 1.00, sellPrice = Fin 1.01, profitPercent = Fin 1 \<rparr>"

text \<open>
  A price signal whose higher price is infinite (a quoted rate of zero), and one whose
  two prices are equal.
\<close>

definition arb_infinite :: Arbitrage where
  "arb_infinite = \<lparr> token = ''XYZ'', buySource = ''binance'', sellSource = ''coinbase'',
            buyPrice = Fin 1, sellPrice = PInf, profitPercent = PInf \<rparr>"

definition arb_flat :: Arbitrage where
  "arb_flat = \<lparr> token = ''XYZ'', buySource = ''binance'', sellSource = ''coinbase'',
            buyPrice = Fin 10, sellPrice = Fin 10, profitPercent = Fin 0 \<rparr>"

definition strat1 :: Strategy where
  "strat1 =
    \<lparr> Strategy.id = ''s-1'', name = ''Simple Arbitrage 1'', Strategy.type = ARBITRAGE,
      Strategy.riskLevel = LOW, enabled = True, priority = 100, minProfitUSD = 0.5,
      maxGasPrice = 50, Strategy.successRate = 0, Strategy.totalTrades = 0,
      profitabletrades = 0, totalProfitUSD = 0, averageExecutionTime = 0,
      lastExecuted = None,
      parameters = \<lparr> StrategyParameters.slippage = 0.5, maxRetries = 3, timeout = 5000 \<rparr> \<rparr>"

definition result1 :: TradeResult where
  "result1 =
    \<lparr> success = True, transactionHash = Some ''0xabc'', profit = Some 0.005,
      profitUSD = Some 10, gasUsed = Some 0.01, executionTime = 4, error = None,
      TradeResult.timestamp = 7 \<rparr>"

text \<open>A registry whose strategy of highest priority is disabled.\<close>

definition strat_off :: Strategy where
  "strat_off = strat1\<lparr> enabled := False \<rparr>"

definition strat2 :: Strategy where
  "strat2 = strat1\<lparr> Strategy.id := ''s-2'', name := ''Simple Arbitrage 2'', priority := 99 \<rparr>"

definition registry2 :: strategy_map where
  "registry2 = [(''s-1'', strat_off), (''s-2'', strat2)]"

definition run_ok :: "Strategy \<Rightarrow> Opportunity \<Rightarrow> string + TradeResult" where
  "run_ok s opp = Inr (result1\<lparr> transactionHash := Some (Strategy.id s) \<rparr>)"

text \<open>A registry of three strategies with one score, registered as \<open>b\<close>, \<open>a\<close>, \<open>c\<close>.\<close>

definition strat_b :: Strategy where
  "strat_b = strat1\<lparr> Strategy.id := ''b'', Strategy.successRate := 1, Strategy.totalTrades := 1,
                     profitabletrades := 1, totalProfitUSD := 10 \<rparr>"

definition strat_a :: Strategy where
  "strat_a = strat_b\<lparr> Strategy.id := ''a'' \<rparr>"

definition strat_c :: Strategy where
  "strat_c = strat_b\<lparr> Strategy.id := ''c'' \<rparr>"

definition registry3 :: strategy_map where
  "registry3 = [(''b'', strat_b), (''a'', strat_a), (''c'', strat_c)]"


section \<open>The decision engine\<close>

subsection \<open>Clamping and the risk score\<close>

lemma Math_clamp_Fin:
  "Math_min (Math_max (Fin x) (Fin 0)) (Fin 1) = Fin (min (max x 0) 1)"
  by (simp add: Math_min_def Math_max_def min_def max_def)

lemma Math_clamp_cases:
  "Math_min (Math_max s (Fin 0)) (Fin 1) =
     (case s of NaN \<Rightarrow> NaN | NInf \<Rightarrow> Fin 0 | PInf \<Rightarrow> Fin 1 | Fin x \<Rightarrow> Fin (min (max x 0) 1))"
  by (cases s) (simp_all add: Math_min_def Math_max_def min_def max_def)

lemma gas_term_cases:
  "Math_min (jdiv (jdiv (Fin g) (Fin p)) (Fin 100)) (Fin 0.3) =
     (if p = 0 then (if g = 0 then NaN else if 0 < g then Fin 0.3 else NInf)
      else Fin (min (g / p / 100) 0.3))"
  by (simp add: Math_min_def min_def)

lemma calculateRiskScore_NaN_iff:
  "calculateRiskScore now opp = NaN \<longleftrightarrow>
     Opportunity.estimatedProfitUSD opp = 0 \<and> Opportunity.gasEstimate opp = 0"
  unfolding calculateRiskScore_def Let_def gas_term_cases
  by (simp add: Math_clamp_cases)

lemma calculateRiskScore_range:
  "calculateRiskScore now opp = NaN \<or>
   (\<exists>r. calculateRiskScore now opp = Fin r \<and> 0 \<le> r \<and> r \<le> 1)"
  unfolding calculateRiskScore_def Let_def gas_term_cases
  by (simp add: Math_clamp_cases)

lemma calculateConfidence_Fin:
  "calculateConfidence
     \<lparr> Factors.riskScore = Fin r, profitProbability = Fin p, marketConditions = Fin m,
       strategyReliability = Fin s, timingScore = Fin t \<rparr> =
   Fin (min (max ((1 - r) * 0.25 + p * 0.30 + m * 0.15 + s * 0.20 + t * 0.10) 0) 1)"
  by (simp add: calculateConfidence_def jsub_def Math_clamp_Fin)

lemma calculateConfidence_NaN:
  "calculateConfidence
     \<lparr> Factors.riskScore = NaN, profitProbability = p, marketConditions = m,
       strategyReliability = s, timingScore = t \<rparr> = NaN"
  by (simp add: calculateConfidence_def jsub_def Math_min_def Math_max_def)

subsection \<open>The accept rule\<close>





text \<open>
  C6. The accept decision is monotone in the confidence: with the risk score and the
  opportunity fixed, if \<open>c1 \<le> c2\<close> and the trade is accepted at confidence \<open>c1\<close>, it is
  accepted at confidence \<open>c2\<close>.
\<close>

theorem accept_monotone:
  "jle c1 c2 \<Longrightarrow> shouldExecuteTrade c1 r opp \<Longrightarrow> shouldExecuteTrade c2 r opp"
  by (cases c1; cases c2) (auto simp: shouldExecuteTrade_def jle_def Let_def split: if_splits)

theorem accept_monotone_witness:
  "jle (Fin 0.8) (Fin 0.9) \<and> shouldExecuteTrade (Fin 0.8) (Fin 0.2) opp1 \<and>
   shouldExecuteTrade (Fin 0.9) (Fin 0.2) opp1"
proof -
  have h1: "jle (Fin 0.8) (Fin 0.9)" by (simp add: jle_def)
  have h2: "shouldExecuteTrade (Fin 0.8) (Fin 0.2) opp1"
    by (simp add: shouldExecuteTrade_def jgt_def opp1_def)
  have h3: "shouldExecuteTrade (Fin 0.9) (Fin 0.2) opp1"
    by (rule accept_monotone[OF h1 h2])
  from h1 h2 h3 show ?thesis by (intro conjI)
qed

subsection \<open>The range of the sub-scores\<close>

lemma clamp_unit_interval: "0 \<le> min (max x 0) (1::real) \<and> min (max x 0) (1::real) \<le> 1"
  by simp

lemma calculateProfitProbability_range:
  "0 \<le> calculateProfitProbability perf opp \<and> calculateProfitProbability perf opp \<le> 1"
  unfolding calculateProfitProbability_def Let_def by (rule clamp_unit_interval)

lemma analyzeMarketConditions_range:
  "0 \<le> analyzeMarketConditions hour opp \<and> analyzeMarketConditions hour opp \<le> 1"
  unfolding analyzeMarketConditions_def Let_def by (rule clamp_unit_interval)

lemma analyzeTimingFactors_range:
  "0 \<le> analyzeTimingFactors now1 now2 opp \<and> analyzeTimingFactors now1 now2 opp \<le> 1"
  unfolding analyzeTimingFactors_def Let_def by (rule clamp_unit_interval)

lemma calculateConfidence_range:
  "\<exists>c. calculateConfidence
     \<lparr> Factors.riskScore = Fin r, profitProbability = Fin p, marketConditions = Fin m,
       strategyReliability = Fin s, timingScore = Fin t \<rparr> = Fin c \<and> 0 \<le> c \<and> c \<le> 1"
  by (simp add: calculateConfidence_Fin)

lemma calculateRiskScore_range_guarded:
  "Opportunity.estimatedProfitUSD opp \<noteq> 0 \<or> Opportunity.gasEstimate opp \<noteq> 0 \<Longrightarrow>
   \<exists>r. calculateRiskScore now opp = Fin r \<and> 0 \<le> r \<and> r \<le> 1"
  using calculateRiskScore_range[of now opp] calculateRiskScore_NaN_iff[of now opp] by blast

text \<open>
  C3. The claim is that every sub-score lies in the closed interval from 0 to 1 for every
  opportunity, zero profit and zero cost included. The profit probability, the
  market-condition score and the timing score do (lemmas above), and so does the risk
  score unless the estimated profit and the gas estimate are both zero. At that input
  \<^verbatim>\<open>calculateRiskScore\<close> divides zero by zero: the risk score is \<open>NaN\<close>, and so is the
  blended confidence of the decision.
\<close>

theorem risk_score_not_a_number:
  "calculateRiskScore 0 opp0 = NaN \<and>
   AIDecision.confidence (analyzeOpportunity Map.empty 0 12 0 0 opp0) = NaN"
proof -
  have risk: "calculateRiskScore 0 opp0 = NaN"
    by (simp add: calculateRiskScore_NaN_iff opp0_def)
  have "AIDecision.confidence (analyzeOpportunity Map.empty 0 12 0 0 opp0) = NaN"
    unfolding analyzeOpportunity_def Let_def risk by (simp add: calculateConfidence_NaN)
  with risk show ?thesis by (intro conjI)
qed

section \<open>The rolling performance window\<close>

lemma update_other_key:
  "st \<noteq> st0 \<Longrightarrow> AIDecisionEngine_updateStrategyPerformance st0 ok pr m st = m st"
  by (simp add: AIDecisionEngine_updateStrategyPerformance_def Let_def)

lemma update_same_key:
  assumes "\<forall>p. m st0 = Some p \<longrightarrow> length (recentPerformance p) \<le> 100"
  shows "\<exists>p. AIDecisionEngine_updateStrategyPerformance st0 ok pr m st0 = Some p \<and> window_ok p"
proof (cases "m st0")
  case None
  then show ?thesis
    by (simp add: AIDecisionEngine_updateStrategyPerformance_def Let_def window_ok_def)
next
  case (Some p)
  with assms have "length (recentPerformance p) \<le> 100" by simp
  with Some show ?thesis
    by (cases "recentPerformance p")
       (simp_all add: AIDecisionEngine_updateStrategyPerformance_def Let_def window_ok_def)
qed

lemma update_keeps_windows:
  assumes "\<And>st p. m st = Some p \<Longrightarrow> window_ok p"
    and "AIDecisionEngine_updateStrategyPerformance st0 ok pr m st = Some p"
  shows "window_ok p"
proof (cases "st = st0")
  case True
  have "\<forall>q. m st0 = Some q \<longrightarrow> length (recentPerformance q) \<le> 100"
    using assms(1) by (simp add: window_ok_def)
  then have "\<exists>q. AIDecisionEngine_updateStrategyPerformance st0 ok pr m st0 = Some q \<and> window_ok q"
    by (rule update_same_key)
  with assms(2) True show ?thesis by auto
next
  case False
  with assms show ?thesis by (simp add: update_other_key)
qed

lemma performance_after_keeps_windows:
  "(\<And>st p. m st = Some p \<Longrightarrow> window_ok p) \<Longrightarrow>
   performance_after calls m st = Some p \<Longrightarrow> window_ok p"
proof (induction calls arbitrary: m)
  case Nil
  then show ?case by simp
next
  case (Cons call calls)
  obtain st0 ok pr where call: "call = (st0, ok, pr)" by (cases call)
  have "\<And>st q. AIDecisionEngine_updateStrategyPerformance st0 ok pr m st = Some q
          \<Longrightarrow> window_ok q"
    using update_keeps_windows[of m] Cons.prems(1) by blast
  from Cons.IH[OF this] Cons.prems(2) show ?case by (simp add: call)
qed

text \<open>
  C4. After any sequence of calls of \<^verbatim>\<open>updateStrategyPerformance\<close> on a new decision
  engine, the window of every category in the map holds at most 100 entries (and at
  least one), and the stored success rate is the number of entries equal to 1 in the
  window divided by the length of the window.
\<close>

theorem rolling_window_bounded:
  assumes "performance_after calls Map.empty strategyType = Some perf"
  shows "length (recentPerformance perf) \<le> 100 \<and> recentPerformance perf \<noteq> [] \<and>
     StrategyPerf.successRate perf =
       real (length (filter (\<lambda>x. x = 1) (recentPerformance perf)))
         / real (length (recentPerformance perf))"
proof -
  have "window_ok perf"
    by (rule performance_after_keeps_windows[OF _ assms]) simp
  then show ?thesis by (simp add: window_ok_def)
qed

theorem rolling_window_bounded_witness:
  "performance_after [(ARBITRAGE, True, 10), (ARBITRAGE, False, 0)] Map.empty ARBITRAGE
     = Some perf_two_trades \<and>
   length (recentPerformance perf_two_trades) \<le> 100 \<and>
   recentPerformance perf_two_trades \<noteq> [] \<and>
   StrategyPerf.successRate perf_two_trades =
     real (length (filter (\<lambda>x. x = 1) (recentPerformance perf_two_trades)))
       / real (length (recentPerformance perf_two_trades))"
proof -
  have h: "performance_after [(ARBITRAGE, True, 10), (ARBITRAGE, False, 0)] Map.empty ARBITRAGE
      = Some perf_two_trades"
    by (simp add: AIDecisionEngine_updateStrategyPerformance_def Let_def perf_two_trades_def)
  from h rolling_window_bounded[OF h] show ?thesis by blast
qed

section \<open>The leveraged-opportunity builder\<close>

lemma overflow_small: "\<bar>a\<bar> \<le> 10 ^ 300 \<Longrightarrow> overflow (Fin a) = Fin a"
proof -
  assume a: "\<bar>a\<bar> \<le> 10 ^ 300"
  have "(10::real) ^ 300 < 2 ^ 1024 - 2 ^ 970" by simp
  with a have "a < 2 ^ 1024 - 2 ^ 970" and "- (2 ^ 1024 - 2 ^ 970) < a" by linarith+
  then show ?thesis by (simp add: overflow_def)
qed

lemma analyzeFlashLoanOpportunity_net:
  assumes "net =
      dsub (dsub (dsub (dsub (dmul l (sellPrice arb)) (dmul l (buyPrice arb)))
                       (dmul l (Fin 0.0009)))
                 (Fin 0.5))
           (dmul (dsub (dmul l (sellPrice arb)) (dmul l (buyPrice arb))) (Fin 0.005))"
  shows "\<exists>flo. analyzeFlashLoanOpportunity l averagePrice uuid now arb =
           (if jle net (Fin 0) then None else Some flo) \<and>
         FlashLoanOpportunity.estimatedProfit flo = net"
  unfolding analyzeFlashLoanOpportunity_def Let_def assms
  by (intro exI conjI, rule refl, simp)

text \<open>
  What the guard of \<^verbatim>\<open>analyzeFlashLoanOpportunity\<close> gives for every loan amount and price
  signal: no object when the net profit is at most zero, an object otherwise, and the
  object carries the net profit, which is positive or \<open>NaN\<close>.
\<close>

lemma analyzeFlashLoanOpportunity_guard:
  "let loanAmount = flashLoanAmountETH;
       grossProfit = dsub (dmul loanAmount (sellPrice arb)) (dmul loanAmount (buyPrice arb));
       flashLoanFee = dmul loanAmount (Fin 0.0009);
       gasCost = Fin 0.5;
       slippageCost = dmul grossProfit (Fin 0.005);
       netProfit = dsub (dsub (dsub grossProfit flashLoanFee) gasCost) slippageCost;
       returned = analyzeFlashLoanOpportunity loanAmount averagePrice uuid now arb
   in (jle netProfit (Fin 0) \<longrightarrow> returned = None) \<and>
      (\<not> jle netProfit (Fin 0) \<longrightarrow> returned \<noteq> None) \<and>
      (\<forall>flo. returned = Some flo \<longrightarrow>
         FlashLoanOpportunity.estimatedProfit flo = netProfit \<and>
         (jgt netProfit (Fin 0) \<or> netProfit = NaN))"
proof -
  define net where "net =
      dsub (dsub (dsub (dsub (dmul flashLoanAmountETH (sellPrice arb))
                             (dmul flashLoanAmountETH (buyPrice arb)))
                       (dmul flashLoanAmountETH (Fin 0.0009)))
                 (Fin 0.5))
           (dmul (dsub (dmul flashLoanAmountETH (sellPrice arb))
                       (dmul flashLoanAmountETH (buyPrice arb))) (Fin 0.005))"
  let ?returned = "analyzeFlashLoanOpportunity flashLoanAmountETH averagePrice uuid now arb"
  obtain flo where r: "?returned = (if jle net (Fin 0) then None else Some flo)"
    and p: "FlashLoanOpportunity.estimatedProfit flo = net"
    using analyzeFlashLoanOpportunity_net[OF net_def] by blast
  have sign: "\<not> jle net (Fin 0) \<Longrightarrow> jgt net (Fin 0) \<or> net = NaN"
    by (cases net) (auto simp: jle_def jgt_def)
  have "(jle net (Fin 0) \<longrightarrow> ?returned = None) \<and> (\<not> jle net (Fin 0) \<longrightarrow> ?returned \<noteq> None) \<and>
      (\<forall>f. ?returned = Some f \<longrightarrow>
         FlashLoanOpportunity.estimatedProfit f = net \<and> (jgt net (Fin 0) \<or> net = NaN))"
    using r p sign by (cases "jle net (Fin 0)") auto
  then show ?thesis unfolding Let_def net_def .
qed

text \<open>
  The example of the specification: with a loan of 100 and prices 1.00 and 1.01 the net
  profit is 0.405 and an object is returned; with a loan of 10 none is.
\<close>

lemma flash_loan_spec_example:
  "map_option FlashLoanOpportunity.estimatedProfit
     (analyzeFlashLoanOpportunity (Fin 100) None ''id-1'' 0 arb1) = Some (Fin 0.405) \<and>
   analyzeFlashLoanOpportunity (Fin 10) None ''id-2'' 0 arb1 = None"
  by (simp add: analyzeFlashLoanOpportunity_def Let_def arb1_def dmul_def dsub_def jsub_def
      overflow_small jle_def)

text \<open>
  C2. The claim is that every object that \<^verbatim>\<open>analyzeFlashLoanOpportunity\<close> returns has a
  positive \<^verbatim>\<open>estimatedProfit\<close>. The guard \<^verbatim>\<open>netProfit <= 0\<close> lets a net profit that is \<open>NaN\<close>
  through. With a loan of 100 and a price signal whose higher price is infinite, the
  gross profit and the slippage cost are infinite and their difference is \<open>NaN\<close>; with a
  loan amount that is \<open>NaN\<close> every product is; with a loan of \<open>10^308\<close> and two prices of
  10 both products overflow. In each case an object is returned and its
  \<^verbatim>\<open>estimatedProfit\<close> is \<open>NaN\<close>.
\<close>

theorem flash_loan_nan_profit_returned:
  "map_option FlashLoanOpportunity.estimatedProfit
     (analyzeFlashLoanOpportunity (Fin 100) None ''id-3'' 0 arb_infinite) = Some NaN \<and>
   map_option FlashLoanOpportunity.estimatedProfit
     (analyzeFlashLoanOpportunity NaN None ''id-4'' 0 arb1) = Some NaN \<and>
   map_option FlashLoanOpportunity.estimatedProfit
     (analyzeFlashLoanOpportunity (Fin (10 ^ 308)) None ''id-5'' 0 arb_flat) = Some NaN"
proof (intro conjI)
  show "map_option FlashLoanOpportunity.estimatedProfit
     (analyzeFlashLoanOpportunity (Fin 100) None ''id-3'' 0 arb_infinite) = Some NaN"
    by (simp add: analyzeFlashLoanOpportunity_def Let_def arb_infinite_def dmul_def dsub_def
        jsub_def overflow_small overflow_def jle_def)
  show "map_option FlashLoanOpportunity.estimatedProfit
     (analyzeFlashLoanOpportunity NaN None ''id-4'' 0 arb1) = Some NaN"
    by (simp add: analyzeFlashLoanOpportunity_def Let_def arb1_def dmul_def dsub_def
        jsub_def overflow_def jle_def)
  have big: "overflow (Fin (10 ^ 308 * 10)) = PInf"
    by (simp add: overflow_def)
  show "map_option FlashLoanOpportunity.estimatedProfit
     (analyzeFlashLoanOpportunity (Fin (10 ^ 308)) None ''id-5'' 0 arb_flat) = Some NaN"
    by (simp add: analyzeFlashLoanOpportunity_def Let_def arb_flat_def dmul_def dsub_def
        jsub_def big overflow_def jle_def)
qed

section \<open>The strategy registry\<close>

lemma map_of_store:
  "map_of (store key s entries) k =
     (if k = key \<and> map_of entries key \<noteq> None then Some s else map_of entries k)"
  by (induction entries) auto

lemma map_fst_store: "map fst (store key s entries) = map fst entries"
  by (induction entries) auto

text \<open>
  C5. For an identifier that the registry holds, \<^verbatim>\<open>updateStrategyPerformance\<close> adds one to
  the number of trades; on success it adds one to the number of profitable trades and
  adds the realized profit (\<^verbatim>\<open>profitUSD\<close>, nothing when the result carries none) to the
  cumulative profit; the success rate becomes profitable trades over trades, the average
  execution time becomes \<open>(avg * (n - 1) + new) / n\<close> for the new number \<open>n\<close> of trades, and
  the time of the last execution is the clock. No other field of the record changes, no
  other record changes, and the order of the registry is kept.
\<close>

theorem recordOutcome_known_id:
  assumes "map_of strategies key = Some s"
  shows "\<exists>s'. map_of (StrategyRegistry_updateStrategyPerformance key result now strategies) key
            = Some s' \<and>
     Strategy.totalTrades s' = Strategy.totalTrades s + 1 \<and>
     profitabletrades s' = (if success result then profitabletrades s + 1 else profitabletrades s) \<and>
     totalProfitUSD s' =
       (if success result
        then totalProfitUSD s + (case profitUSD result of Some p \<Rightarrow> p | None \<Rightarrow> 0)
        else totalProfitUSD s) \<and>
     Strategy.successRate s' = real (profitabletrades s') / real (Strategy.totalTrades s') \<and>
     averageExecutionTime s' =
       (averageExecutionTime s * (real (Strategy.totalTrades s') - 1) + executionTime result)
         / real (Strategy.totalTrades s') \<and>
     lastExecuted s' = Some now \<and>
     Strategy.id s' = Strategy.id s \<and> name s' = name s \<and> Strategy.type s' = Strategy.type s \<and>
     Strategy.riskLevel s' = Strategy.riskLevel s \<and> enabled s' = enabled s \<and>
     priority s' = priority s \<and> minProfitUSD s' = minProfitUSD s \<and>
     maxGasPrice s' = maxGasPrice s \<and> parameters s' = parameters s \<and>
     (\<forall>k. k \<noteq> key \<longrightarrow>
        map_of (StrategyRegistry_updateStrategyPerformance key result now strategies) k
          = map_of strategies k) \<and>
     map fst (StrategyRegistry_updateStrategyPerformance key result now strategies)
       = map fst strategies"
  using assms
  by (simp add: StrategyRegistry_updateStrategyPerformance_def Let_def map_of_store
      map_fst_store num_or_def split: option.split)

theorem recordOutcome_known_id_witness:
  "map_of [(''s-1'', strat1)] ''s-1'' = Some strat1 \<and>
   (\<exists>s'. map_of (StrategyRegistry_updateStrategyPerformance ''s-1'' result1 9 [(''s-1'', strat1)])
           ''s-1'' = Some s' \<and>
      Strategy.totalTrades s' = 1 \<and> profitabletrades s' = 1 \<and> totalProfitUSD s' = 10 \<and>
      Strategy.successRate s' = 1 \<and> averageExecutionTime s' = 4 \<and> lastExecuted s' = Some 9)"
proof -
  have h: "map_of [(''s-1'', strat1)] ''s-1'' = Some strat1" by simp
  from recordOutcome_known_id[OF h, of result1 9] obtain s' where
    "map_of (StrategyRegistry_updateStrategyPerformance ''s-1'' result1 9 [(''s-1'', strat1)])
           ''s-1'' = Some s'"
    "Strategy.totalTrades s' = Strategy.totalTrades strat1 + 1"
    "profitabletrades s' = (if success result1 then profitabletrades strat1 + 1 else profitabletrades strat1)"
    "totalProfitUSD s' =
       (if success result1
        then totalProfitUSD strat1 + (case profitUSD result1 of Some p \<Rightarrow> p | None \<Rightarrow> 0)
        else totalProfitUSD strat1)"
    "Strategy.successRate s' = real (profitabletrades s') / real (Strategy.totalTrades s')"
    "averageExecutionTime s' =
       (averageExecutionTime strat1 * (real (Strategy.totalTrades s') - 1) + executionTime result1)
         / real (Strategy.totalTrades s')"
    "lastExecuted s' = Some 9"
    by blast
  then have
    "map_of (StrategyRegistry_updateStrategyPerformance ''s-1'' result1 9 [(''s-1'', strat1)])
           ''s-1'' = Some s' \<and>
      Strategy.totalTrades s' = 1 \<and> profitabletrades s' = 1 \<and> totalProfitUSD s' = 10 \<and>
      Strategy.successRate s' = 1 \<and> averageExecutionTime s' = 4 \<and> lastExecuted s' = Some 9"
    by (simp add: strat1_def result1_def)
  with h show ?thesis by blast
qed

text \<open>
  C10. \<^verbatim>\<open>updateStrategyPerformance\<close> with an identifier that the registry does not hold
  returns without an error and leaves the registry, and so every strategy record, as
  it was.
\<close>

theorem update_unknown_id_noop:
  "map_of strategies key = None \<Longrightarrow>
   StrategyRegistry_updateStrategyPerformance key result now strategies = strategies"
  by (simp add: StrategyRegistry_updateStrategyPerformance_def)

theorem update_unknown_id_noop_witness:
  "map_of [(''s-1'', strat1)] ''s-2'' = None \<and>
   StrategyRegistry_updateStrategyPerformance ''s-2'' result1 9 [(''s-1'', strat1)] =
     [(''s-1'', strat1)]"
proof -
  have h: "map_of [(''s-1'', strat1)] ''s-2'' = None" by simp
  from h update_unknown_id_noop[OF h, of result1 9] show ?thesis by (intro conjI)
qed

subsection \<open>The ranking of the strategies\<close>

lemma sort_descending_stable:
  "filter (\<lambda>x. f x = k) (sort_descending f xs) = filter (\<lambda>x. f x = k) xs"
proof -
  have "filter (\<lambda>x. - f x = - k) (sort_key (\<lambda>x. - f x) xs) = filter (\<lambda>x. - f x = - k) xs"
    by (rule sort_key_stable)
  then show ?thesis by (simp add: sort_descending_def)
qed

lemma sort_descending_sorted:
  "sorted_wrt (\<lambda>a b. f b \<le> f a) (sort_descending f xs)"
proof -
  have "sorted (map (\<lambda>x. - f x) (sort_key (\<lambda>x. - f x) xs))" by (rule sorted_sort_key)
  then show ?thesis by (simp add: sort_descending_def sorted_map)
qed

text \<open>
  C8, as the code has it. For a limit that is not negative, \<^verbatim>\<open>getTopPerformingStrategies\<close>
  returns as many records as the limit allows and never more, only strategies of the
  registry with at least one recorded trade, in descending order of
  \<^verbatim>\<open>successRate * totalProfitUSD\<close>. The result is the front of a list (\<open>ranked @ rest\<close>) that
  holds the strategies with a recorded trade in descending order of score, and in which
  the strategies of any one score are in their order of registration.
\<close>

theorem top_performers:
  assumes "0 \<le> limit"
  shows
    "let eligible = filter (\<lambda>s. Strategy.totalTrades s > 0) (map snd strategies);
         ranked = getTopPerformingStrategies limit strategies
     in length ranked = min (nat limit) (length eligible) \<and>
        int (length ranked) \<le> limit \<and>
        (\<forall>s\<in>set ranked. s \<in> snd ` set strategies \<and> Strategy.totalTrades s > 0) \<and>
        sorted_wrt (\<lambda>a b. performance_score b \<le> performance_score a) ranked \<and>
        (\<exists>rest.
           sorted_wrt (\<lambda>a b. performance_score b \<le> performance_score a) (ranked @ rest) \<and>
           (\<forall>k. filter (\<lambda>s. performance_score s = k) (ranked @ rest) =
                filter (\<lambda>s. performance_score s = k) eligible))"
proof -
  let ?e = "filter (\<lambda>s. Strategy.totalTrades s > 0) (map snd strategies)"
  let ?sorted = "sort_descending performance_score ?e"
  let ?ranked = "getTopPerformingStrategies limit strategies"
  have top: "?ranked = take (nat limit) ?sorted"
    using assms by (simp add: getTopPerformingStrategies_def slice0_def)
  have len: "length ?ranked = min (nat limit) (length ?e)"
    by (simp add: top sort_descending_def min.commute)
  have le: "int (length ?ranked) \<le> limit" using len assms by linarith
  have sub: "set ?ranked \<subseteq> set ?e"
    unfolding top using set_take_subset[of "nat limit" ?sorted]
    by (simp add: sort_descending_def)
  have mem: "\<forall>s\<in>set ?ranked. s \<in> snd ` set strategies \<and> Strategy.totalTrades s > 0"
    using sub by auto
  have all: "?ranked @ drop (nat limit) ?sorted = ?sorted" by (simp add: top)
  have srt: "sorted_wrt (\<lambda>a b. performance_score b \<le> performance_score a) ?sorted"
    by (rule sort_descending_sorted)
  then have srt_top: "sorted_wrt (\<lambda>a b. performance_score b \<le> performance_score a) ?ranked"
    unfolding top by (rule sorted_wrt_take)
  have "sorted_wrt (\<lambda>a b. performance_score b \<le> performance_score a)
          (?ranked @ drop (nat limit) ?sorted) \<and>
        (\<forall>k. filter (\<lambda>s. performance_score s = k) (?ranked @ drop (nat limit) ?sorted) =
             filter (\<lambda>s. performance_score s = k) ?e)"
    unfolding all using srt by (simp add: sort_descending_stable)
  then have ex: "\<exists>rest.
           sorted_wrt (\<lambda>a b. performance_score b \<le> performance_score a) (?ranked @ rest) \<and>
           (\<forall>k. filter (\<lambda>s. performance_score s = k) (?ranked @ rest) =
                filter (\<lambda>s. performance_score s = k) ?e)"
    by blast
  show ?thesis unfolding Let_def using len le mem srt_top ex by blast
qed

theorem top_performers_witness:
  "(0::int) \<le> 2 \<and> length (getTopPerformingStrategies 2 registry3) = 2"
proof -
  have h: "(0::int) \<le> 2" by simp
  have "length (getTopPerformingStrategies 2 registry3) =
      min (nat 2) (length (filter (\<lambda>s. Strategy.totalTrades s > 0) (map snd registry3)))"
    using top_performers[OF h, of registry3] unfolding Let_def by blast
  then have "length (getTopPerformingStrategies 2 registry3) = 2"
    by (simp add: registry3_def strat_a_def strat_b_def strat_c_def strat1_def)
  with h show ?thesis by (intro conjI)
qed

text \<open>
  C8, as the claim states it. Ties are not broken by identifier: three strategies of one
  score registered as \<open>b\<close>, \<open>a\<close>, \<open>c\<close> are returned in that order. And a negative limit
  counts from the end of the list: with limit \<open>-1\<close> two records are returned.
\<close>

theorem top_performers_tie_order:
  "map Strategy.id (getTopPerformingStrategies 10 registry3) = [''b'', ''a'', ''c''] \<and>
   performance_score strat_b = performance_score strat_a \<and>
   \<not> ties_by_identifier (getTopPerformingStrategies 10 registry3) \<and>
   \<not> int (length (getTopPerformingStrategies (- 1) registry3)) \<le> - 1"
  by (simp add: getTopPerformingStrategies_def slice0_def sort_descending_def registry3_def
      strat_a_def strat_b_def strat_c_def strat1_def performance_score_def ties_by_identifier_def)

section \<open>The dispatcher\<close>

text \<open>
  C9. When the queue holds \<open>10^6\<close> opportunities, \<^verbatim>\<open>addOpportunity\<close> returns the queue as it
  was; when it holds fewer, the opportunity is appended at the tail. The function is
  total and has no error result.
\<close>

theorem addOpportunity_bounded:
  "(length queue = 1000000 \<longrightarrow> addOpportunity opp queue = queue) \<and>
   (length queue < 1000000 \<longrightarrow> addOpportunity opp queue = queue @ [opp])"
  by (simp add: addOpportunity_def maxQueueSize_def)

theorem addOpportunity_bounded_witness:
  "addOpportunity opp1 (replicate 1000000 opp1) = replicate 1000000 opp1 \<and>
   addOpportunity opp1 [] = [opp1]"
  using addOpportunity_bounded[of "replicate 1000000 opp1" opp1]
    addOpportunity_bounded[of "[]" opp1]
  by simp

subsection \<open>The head of a stable sort\<close>

lemma hd_insort_key:
  "ys \<noteq> [] \<Longrightarrow> hd (insort_key f x ys) = (if f x \<le> f (hd ys) then x else hd ys)"
  by (cases ys) auto

lemma hd_sort_key_Cons:
  "xs \<noteq> [] \<Longrightarrow>
   hd (sort_key f (x # xs)) = (if f x \<le> f (hd (sort_key f xs)) then x else hd (sort_key f xs))"
proof -
  assume "xs \<noteq> []"
  then have ne: "sort_key f xs \<noteq> []" by (metis length_sort length_0_conv)
  have "sort_key f (x # xs) = insort_key f x (sort_key f xs)" by simp
  then show ?thesis using hd_insort_key[OF ne, of f x] by simp
qed

lemma hd_sort_key_split:
  "xs \<noteq> [] \<Longrightarrow>
   \<exists>before after. xs = before @ hd (sort_key f xs) # after \<and>
     (\<forall>x\<in>set before. f (hd (sort_key f xs)) < f x) \<and>
     (\<forall>x\<in>set after. f (hd (sort_key f xs)) \<le> f x)"
proof (induction xs)
  case Nil
  then show ?case by simp
next
  case (Cons x xs)
  show ?case
  proof (cases "xs = []")
    case True
    then show ?thesis by (intro exI[of _ "[]"]) simp
  next
    case False
    let ?h = "hd (sort_key f xs)"
    from Cons.IH[OF False] obtain before after where
      xs: "xs = before @ ?h # after" and
      b: "\<forall>y\<in>set before. f ?h < f y" and a: "\<forall>y\<in>set after. f ?h \<le> f y"
      by blast
    note hd_eq = hd_sort_key_Cons[OF False, of f x]
    have all_ge: "\<forall>y\<in>set xs. f ?h \<le> f y"
    proof
      fix y assume "y \<in> set xs"
      then have "y \<in> set before \<or> y = ?h \<or> y \<in> set after"
        by (subst (asm) xs) auto
      with a b show "f ?h \<le> f y" by auto
    qed
    show ?thesis
    proof (cases "f x \<le> f ?h")
      case True
      then have "hd (sort_key f (x # xs)) = x" by (simp only: hd_eq if_True)
      moreover have "\<forall>y\<in>set xs. f x \<le> f y" using True all_ge by force
      ultimately show ?thesis by (intro exI[of _ "[]"] exI[of _ xs]) simp
    next
      case False
      then have h: "hd (sort_key f (x # xs)) = ?h" by (simp only: hd_eq if_False)
      have "x # xs = (x # before) @ ?h # after" using xs by simp
      moreover have "\<forall>y\<in>set (x # before). f ?h < f y" using False b by auto
      ultimately show ?thesis unfolding h using a by blast
    qed
  qed
qed

text \<open>
  C7, as the code has it. For an opportunity that passes the gate, the candidates are the
  strategies of the opportunity's category in their order of registration, enabled or
  not. When there is none the outcome is the rejection \<^verbatim>\<open>No strategy available\<close> and the
  registry is unchanged. Otherwise the strategy that is executed is the candidate of
  highest priority, the earliest registered among those of that priority: every
  candidate before it has a strictly lower priority and no candidate after it has a
  higher one.
\<close>

theorem dispatch_selects_first_highest_priority:
  assumes "\<not> aiProbability < confidenceThreshold"
  shows
    "let candidates = filter (\<lambda>s. Strategy.type s = Opportunity.type opp) (map snd registry);
         outcome = executeOpportunity aiProbability confidenceThreshold execute
                     startTime now1 now2 nowUpdate opp registry
     in (candidates = [] \<longrightarrow>
           outcome = (failed (now1 - startTime) now2 ''No strategy available'', registry)) \<and>
        (candidates \<noteq> [] \<longrightarrow>
           (\<exists>before strategy after.
              candidates = before @ strategy # after \<and>
              (\<forall>s\<in>set before. priority s < priority strategy) \<and>
              (\<forall>s\<in>set after. priority s \<le> priority strategy) \<and>
              outcome =
                (case execute strategy opp of
                   Inl message \<Rightarrow> (failed (now1 - startTime) now2 message, registry)
                 | Inr result \<Rightarrow>
                     (result,
                      StrategyRegistry_updateStrategyPerformance
                        (Strategy.id strategy) result nowUpdate registry))))"
proof -
  let ?c = "filter (\<lambda>s. Strategy.type s = Opportunity.type opp) (map snd registry)"
  let ?sel = "hd (sort_key (\<lambda>s. - priority s) ?c)"
  have empty: "?c = [] \<Longrightarrow>
      executeOpportunity aiProbability confidenceThreshold execute startTime now1 now2 nowUpdate
        opp registry = (failed (now1 - startTime) now2 ''No strategy available'', registry)"
    using assms by (simp add: executeOpportunity_def getStrategiesByType_def)
  have nonempty: "?c \<noteq> [] \<Longrightarrow>
      executeOpportunity aiProbability confidenceThreshold execute startTime now1 now2 nowUpdate
        opp registry =
        (case execute ?sel opp of
           Inl message \<Rightarrow> (failed (now1 - startTime) now2 message, registry)
         | Inr result \<Rightarrow>
             (result,
              StrategyRegistry_updateStrategyPerformance (Strategy.id ?sel) result nowUpdate
                registry))"
    using assms
    by (simp add: executeOpportunity_def getStrategiesByType_def sort_descending_def Let_def)
  have split: "?c \<noteq> [] \<Longrightarrow>
      \<exists>before after. ?c = before @ ?sel # after \<and>
        (\<forall>s\<in>set before. priority s < priority ?sel) \<and>
        (\<forall>s\<in>set after. priority s \<le> priority ?sel)"
    using hd_sort_key_split[of ?c "\<lambda>s. - priority s"] by simp
  show ?thesis
    unfolding Let_def using empty nonempty split by blast
qed

theorem dispatch_selects_first_highest_priority_witness:
  "\<not> (0.9 :: real) < 0.75 \<and>
   filter (\<lambda>s. Strategy.type s = Opportunity.type opp1) (map snd registry2) \<noteq> [] \<and>
   (\<exists>before strategy after.
      filter (\<lambda>s. Strategy.type s = Opportunity.type opp1) (map snd registry2)
        = before @ strategy # after \<and>
      (\<forall>s\<in>set before. priority s < priority strategy) \<and>
      (\<forall>s\<in>set after. priority s \<le> priority strategy) \<and>
      executeOpportunity 0.9 0.75 run_ok 0 1 1 2 opp1 registry2 =
        (case run_ok strategy opp1 of
           Inl message \<Rightarrow> (failed (1 - 0) 1 message, registry2)
         | Inr result \<Rightarrow>
             (result,
              StrategyRegistry_updateStrategyPerformance (Strategy.id strategy) result 2 registry2)))"
proof -
  have gate: "\<not> (0.9 :: real) < 0.75" by simp
  have ne: "filter (\<lambda>s. Strategy.type s = Opportunity.type opp1) (map snd registry2) \<noteq> []"
    by (simp add: registry2_def strat_off_def strat1_def opp1_def)
  from dispatch_selects_first_highest_priority[OF gate, of opp1 registry2 run_ok 0 1 1 2] gate ne
  show ?thesis unfolding Let_def by blast
qed

text \<open>
  C7, as the claim states it. The dispatcher does not read the flag \<^verbatim>\<open>enabled\<close>: with a
  disabled strategy of priority 100 and an enabled one of priority 99 in the category,
  the disabled strategy is executed, where the selection among the enabled strategies
  executes the other.
\<close>

theorem dispatch_ignores_enabled_flag:
  "executeOpportunity 0.9 0.75 run_ok 0 1 1 2 opp1 registry2 \<noteq>
     spec_executeOpportunity 0.9 0.75 run_ok 0 1 1 2 opp1 registry2 \<and>
   transactionHash (fst (executeOpportunity 0.9 0.75 run_ok 0 1 1 2 opp1 registry2)) = Some ''s-1'' \<and>
   map_of registry2 ''s-1'' = Some strat_off \<and> \<not> enabled strat_off \<and>
   transactionHash (fst (spec_executeOpportunity 0.9 0.75 run_ok 0 1 1 2 opp1 registry2)) = Some ''s-2''"
  by (simp add: executeOpportunity_def spec_executeOpportunity_def getStrategiesByType_def
      sort_descending_def registry2_def strat_off_def strat2_def strat1_def run_ok_def opp1_def
      result1_def Let_def StrategyRegistry_updateStrategyPerformance_def)

end
